theory Spec2Isabelle
  imports Complex_Main
begin

section \<open>Palette generator (scripts/generate-palette.ts)\<close>

text \<open>
  JavaScript numbers are modelled as exact reals: every literal of the source
  (\<open>0.02\<close>, \<open>0.05\<close>, \<open>360\<close>, ...) denotes the real number it is written as, and
  \<open>+\<close>, \<open>*\<close>, \<open><\<close> are exact. On integer-valued hues (the only ones the
  command line produces, through \<open>parseInt\<close>) the hue arithmetic of the source is exact
  in IEEE doubles too, so the model agrees with the program there; rounding of
  non-integer values is outside the model.
\<close>

subsection \<open>Data\<close>

text \<open>
  \<open>interface OKLCHColor { l; c; h }\<close>. The selectors carry the prefix \<open>col_\<close>,
  since one-letter constants would capture the variables of every later statement.
\<close>

record OKLCHColor =
  col_l :: real
  col_c :: real
  col_h :: real

text \<open>
  \<open>interface GeneratedPalette\<close>. The role \<open>text\<close> is named \<open>text_role\<close>:
  \<open>text\<close> is a keyword of the theory language.
\<close>

record GeneratedPalette =
  primary :: OKLCHColor
  secondary :: OKLCHColor
  accent :: OKLCHColor
  background :: OKLCHColor
  text_role :: OKLCHColor
  muted :: OKLCHColor
  border :: OKLCHColor

datatype HarmonyMode = Monochromatic | Analogous | SplitComplementary | Triadic

text \<open>
  \<open>getContrastRatio\<close> only forwards to \<open>chroma.contrast (chroma.oklch ...)\<close> of the
  chroma-js package, which is not part of the repository. The model therefore takes the
  contrast function as a parameter \<open>cr\<close> wherever the source calls
  \<open>getContrastRatio\<close>; every general theorem below holds for all \<open>cr\<close>.
\<close>

type_synonym contrast_fn = "OKLCHColor \<Rightarrow> OKLCHColor \<Rightarrow> real"

subsection \<open>normalizeHue\<close>

text \<open>
  The remainder operator \<open>%\<close> of JavaScript on finite numbers: the result has the
  sign of the dividend (the quotient is truncated towards zero).
\<close>

definition js_trunc :: "real \<Rightarrow> int" where
  "js_trunc q = (if 0 \<le> q then \<lfloor>q\<rfloor> else \<lceil>q\<rceil>)"

definition js_rem :: "real \<Rightarrow> real \<Rightarrow> real" where
  "js_rem x y = x - y * of_int (js_trunc (x / y))"

definition normalizeHue :: "real \<Rightarrow> real" where
  "normalizeHue x = js_rem (js_rem x 360 + 360) 360"

subsection \<open>ensureContrast\<close>

text \<open>
  \<open>const direction = bg.l > 0.5 ? -1 : 1\<close> is computed once and \<open>bg\<close> is never
  assigned, so the loop body reads it as a function of \<open>bg\<close>.
\<close>

definition direction :: "OKLCHColor \<Rightarrow> real" where
  "direction bg = (if col_l bg > 0.5 then - 1 else 1)"

text \<open>One execution of the loop body: \<open>adjusted.l += direction * 0.02\<close>.\<close>

definition adjust_step :: "OKLCHColor \<Rightarrow> OKLCHColor \<Rightarrow> OKLCHColor" where
  "adjust_step bg adjusted = adjusted\<lparr>col_l := col_l adjusted + direction bg * 0.02\<rparr>"

text \<open>
  The loop guard \<open>ratio < minRatio && adjusted.l > 0.05 && adjusted.l < 0.95\<close>;
  \<open>ratio\<close> always holds \<open>getContrastRatio(adjusted, bg)\<close> when the guard is read.
\<close>

definition loop_guard :: "contrast_fn \<Rightarrow> OKLCHColor \<Rightarrow> real \<Rightarrow> OKLCHColor \<Rightarrow> bool" where
  "loop_guard cr bg minRatio adjusted \<longleftrightarrow>
     cr adjusted bg < minRatio \<and> col_l adjusted > 0.05 \<and> col_l adjusted < 0.95"

text \<open>
  The variant of the loop: the number of steps of width \<open>0.02\<close> that separate the
  lightness from the bound it moves towards.
\<close>

definition steps_left :: "OKLCHColor \<Rightarrow> OKLCHColor \<Rightarrow> nat" where
  "steps_left bg adjusted =
     (if col_l bg > 0.5 then nat \<lceil>(col_l adjusted - 0.05) / 0.02\<rceil>
      else nat \<lceil>(0.95 - col_l adjusted) / 0.02\<rceil>)"

lemma nat_ceiling_pred: "0 < (x::real) \<Longrightarrow> nat \<lceil>x - 1\<rceil> < nat \<lceil>x\<rceil>"
  by linarith

lemma col_l_adjust_step: "col_l (adjust_step bg a) = col_l a + direction bg * 0.02"
  by (simp add: adjust_step_def)

lemma steps_left_decreases:
  assumes "col_l adjusted > 0.05" and "col_l adjusted < 0.95"
  shows "steps_left bg (adjust_step bg adjusted) < steps_left bg adjusted"
proof (cases "col_l bg > 0.5")
  case True
  define x where "x = (col_l adjusted - 0.05) / 0.02"
  have p: "0 < x" using assms by (simp add: x_def)
  have "(col_l (adjust_step bg adjusted) - 0.05) / 0.02 = x - 1"
    using True by (simp add: col_l_adjust_step direction_def x_def field_simps)
  then have "steps_left bg (adjust_step bg adjusted) = nat \<lceil>x - 1\<rceil>"
    using True by (simp only: steps_left_def if_True)
  moreover have "steps_left bg adjusted = nat \<lceil>x\<rceil>"
    using True by (simp only: steps_left_def if_True x_def)
  ultimately show ?thesis using nat_ceiling_pred [OF p] by simp
next
  case False
  define x where "x = (0.95 - col_l adjusted) / 0.02"
  have p: "0 < x" using assms by (simp add: x_def)
  have "(0.95 - col_l (adjust_step bg adjusted)) / 0.02 = x - 1"
    using False by (simp add: col_l_adjust_step direction_def x_def field_simps)
  then have "steps_left bg (adjust_step bg adjusted) = nat \<lceil>x - 1\<rceil>"
    using False by (simp only: steps_left_def if_False)
  moreover have "steps_left bg adjusted = nat \<lceil>x\<rceil>"
    using False by (simp only: steps_left_def if_False x_def)
  ultimately show ?thesis using nat_ceiling_pred [OF p] by simp
qed

function ensureContrast_loop ::
  "contrast_fn \<Rightarrow> OKLCHColor \<Rightarrow> real \<Rightarrow> OKLCHColor \<Rightarrow> OKLCHColor" where
  "ensureContrast_loop cr bg minRatio adjusted =
     (if loop_guard cr bg minRatio adjusted
      then ensureContrast_loop cr bg minRatio (adjust_step bg adjusted)
      else adjusted)"
  by pat_completeness auto
termination
  by (relation "measure (\<lambda>(cr, bg, minRatio, adjusted). steps_left bg adjusted)")
     (auto simp: loop_guard_def steps_left_decreases)

declare ensureContrast_loop.simps [simp del]

text \<open>\<open>let adjusted = { ...fg }\<close>, the loop, \<open>return adjusted\<close>.\<close>

definition ensureContrast :: "contrast_fn \<Rightarrow> OKLCHColor \<Rightarrow> OKLCHColor \<Rightarrow> real \<Rightarrow> OKLCHColor" where
  "ensureContrast cr fg bg minRatio = ensureContrast_loop cr bg minRatio fg"

text \<open>
  The number of times the loop body runs, by the same recursion as the loop; lemma
  \<open>ensureContrast_loop_funpow\<close> ties it to the loop.
\<close>

function iterations :: "contrast_fn \<Rightarrow> OKLCHColor \<Rightarrow> real \<Rightarrow> OKLCHColor \<Rightarrow> nat" where
  "iterations cr bg minRatio adjusted =
     (if loop_guard cr bg minRatio adjusted
      then Suc (iterations cr bg minRatio (adjust_step bg adjusted))
      else 0)"
  by pat_completeness auto
termination
  by (relation "measure (\<lambda>(cr, bg, minRatio, adjusted). steps_left bg adjusted)")
     (auto simp: loop_guard_def steps_left_decreases)

declare iterations.simps [simp del]

subsection \<open>generatePalette\<close>

text \<open>The \<open>switch (mode)\<close> of the source, with \<open>hh\<close> the normalised base hue.\<close>

definition initialPalette :: "real \<Rightarrow> HarmonyMode \<Rightarrow> bool \<Rightarrow> GeneratedPalette" where
  "initialPalette hh mode isDark =
    (let bgL = (if isDark then 0.12 else 0.98);
         textL = (if isDark then 0.92 else 0.18);
         bgC = (if isDark then 0.02 else 0.01)
     in case mode of
       Monochromatic \<Rightarrow>
        \<lparr> primary = \<lparr>col_l = (if isDark then 0.65 else 0.45), col_c = 0.15, col_h = hh\<rparr>,
          secondary = \<lparr>col_l = (if isDark then 0.55 else 0.55), col_c = 0.10, col_h = hh\<rparr>,
          accent = \<lparr>col_l = (if isDark then 0.70 else 0.55), col_c = 0.20,
                    col_h = normalizeHue (hh + 180)\<rparr>,
          background = \<lparr>col_l = bgL, col_c = bgC, col_h = hh\<rparr>,
          text_role = \<lparr>col_l = textL, col_c = 0.02, col_h = hh\<rparr>,
          muted = \<lparr>col_l = (if isDark then 0.35 else 0.65), col_c = 0.04, col_h = hh\<rparr>,
          border = \<lparr>col_l = (if isDark then 0.25 else 0.85), col_c = 0.02, col_h = hh\<rparr> \<rparr>
     | Analogous \<Rightarrow>
        \<lparr> primary = \<lparr>col_l = (if isDark then 0.65 else 0.45), col_c = 0.15, col_h = hh\<rparr>,
          secondary = \<lparr>col_l = (if isDark then 0.60 else 0.50), col_c = 0.12,
                       col_h = normalizeHue (hh + 30)\<rparr>,
          accent = \<lparr>col_l = (if isDark then 0.70 else 0.55), col_c = 0.18,
                    col_h = normalizeHue (hh - 30)\<rparr>,
          background = \<lparr>col_l = bgL, col_c = bgC, col_h = hh\<rparr>,
          text_role = \<lparr>col_l = textL, col_c = 0.02, col_h = hh\<rparr>,
          muted = \<lparr>col_l = (if isDark then 0.35 else 0.65), col_c = 0.04,
                   col_h = normalizeHue (hh + 15)\<rparr>,
          border = \<lparr>col_l = (if isDark then 0.25 else 0.85), col_c = 0.02, col_h = hh\<rparr> \<rparr>
     | SplitComplementary \<Rightarrow>
        (let complement = normalizeHue (hh + 180) in
        \<lparr> primary = \<lparr>col_l = (if isDark then 0.65 else 0.45), col_c = 0.15, col_h = hh\<rparr>,
          secondary = \<lparr>col_l = (if isDark then 0.60 else 0.52), col_c = 0.12,
                       col_h = normalizeHue (complement + 30)\<rparr>,
          accent = \<lparr>col_l = (if isDark then 0.70 else 0.58), col_c = 0.18,
                    col_h = normalizeHue (complement - 30)\<rparr>,
          background = \<lparr>col_l = bgL, col_c = bgC, col_h = hh\<rparr>,
          text_role = \<lparr>col_l = textL, col_c = 0.02, col_h = hh\<rparr>,
          muted = \<lparr>col_l = (if isDark then 0.35 else 0.65), col_c = 0.04, col_h = hh\<rparr>,
          border = \<lparr>col_l = (if isDark then 0.25 else 0.85), col_c = 0.02, col_h = hh\<rparr> \<rparr>)
     | Triadic \<Rightarrow>
        \<lparr> primary = \<lparr>col_l = (if isDark then 0.65 else 0.45), col_c = 0.15, col_h = hh\<rparr>,
          secondary = \<lparr>col_l = (if isDark then 0.60 else 0.50), col_c = 0.12,
                       col_h = normalizeHue (hh + 120)\<rparr>,
          accent = \<lparr>col_l = (if isDark then 0.70 else 0.55), col_c = 0.18,
                    col_h = normalizeHue (hh + 240)\<rparr>,
          background = \<lparr>col_l = bgL, col_c = bgC, col_h = hh\<rparr>,
          text_role = \<lparr>col_l = textL, col_c = 0.02, col_h = normalizeHue (hh + 120)\<rparr>,
          muted = \<lparr>col_l = (if isDark then 0.35 else 0.65), col_c = 0.04, col_h = hh\<rparr>,
          border = \<lparr>col_l = (if isDark then 0.25 else 0.85), col_c = 0.02, col_h = hh\<rparr> \<rparr>)"

text \<open>
  The two assignments after the switch: first \<open>palette.text\<close> against the background
  with target 7.0, then \<open>palette.primary\<close> with target 4.5.
\<close>

definition repair :: "contrast_fn \<Rightarrow> GeneratedPalette \<Rightarrow> GeneratedPalette" where
  "repair cr palette =
    (let p1 = palette\<lparr>text_role := ensureContrast cr (text_role palette) (background palette) 7.0\<rparr>
     in p1\<lparr>primary := ensureContrast cr (primary p1) (background p1) 4.5\<rparr>)"

definition generatePalette :: "contrast_fn \<Rightarrow> real \<Rightarrow> HarmonyMode \<Rightarrow> bool \<Rightarrow> GeneratedPalette" where
  "generatePalette cr baseHue mode isDark =
     repair cr (initialPalette (normalizeHue baseHue) mode isDark)"

text \<open>
  A concrete contrast function, used only to run the model on explicit inputs: the WCAG
  ratio \<open>(Y\<^sub>1 + 0.05) / (Y\<^sub>2 + 0.05)\<close> of the luminances \<open>Y = L\<^sup>3\<close> that the
  neutral colours of the two lightnesses have. Like every WCAG ratio it lies between 1
  and 21 (lemma \<open>neutralContrast_range\<close>).
\<close>

definition neutralContrast :: contrast_fn where
  "neutralContrast a b =
     (let ya = (col_l a) ^ 3; yb = (col_l b) ^ 3
      in (max ya yb + 0.05) / (min ya yb + 0.05))"

section \<open>Design DNA validator (scripts/validate-dna.ts)\<close>

subsection \<open>The document\<close>

text \<open>
  \<open>interface DesignDNA\<close>, restricted to the fields that \<open>validateDesignDNA\<close> reads.
  The document comes from \<open>JSON.parse\<close>, so any field may be absent at run time whatever
  the interface says: every field is an \<open>option\<close>, \<open>None\<close> standing for
  \<open>undefined\<close>. A field that is present has the type the interface gives it (a
  \<open>null\<close> or a value of another type is not modelled). A \<open>Record<string, _>\<close> is
  an association list in the order of its keys.
\<close>

record ContrastRatios =
  textOnBackground :: "real option"

record ColorSection =
  model :: "string option"
  palette :: "(string \<times> OKLCHColor) list option"
  contrastRatios :: "ContrastRatios option"

record Scale =
  ratio :: "real option"

record Families =
  heading :: "string list option"
  body :: "string list option"

record Typography =
  scale :: "Scale option"
  families :: "Families option"

record Spring =
  stiffness :: real
  damping :: real
  mass :: real

record Motion =
  springs :: "(string \<times> Spring) list option"
  defaultSpring :: "string option"
  reducedMotion :: "string option"

record Spacing =
  base :: "real option"

record Geometry =
  borderRadius :: "(string \<times> string) list option"
  spacing :: "Spacing option"

record Primitives =
  color :: "ColorSection option"
  typography :: "Typography option"
  motion :: "Motion option"
  geometry :: "Geometry option"

record Meta =
  personality :: "string list option"
  antiPatterns :: "string list option"

record LayoutJitter =
  maxOffset :: real
  rotationRange :: "real list"

record Noise =
  seed :: "string option"
  layoutJitter :: "LayoutJitter option"

record Generative =
  noise :: "Noise option"

record DesignDNA =
  meta :: "Meta option"
  primitives :: "Primitives option"
  generative :: "Generative option"

subsection \<open>The JavaScript runtime\<close>

text \<open>
  Reading a property of \<open>undefined\<close> throws a \<open>TypeError\<close>; so do
  \<open>Object.values(undefined)\<close> and \<open>undefined.length\<close>. The validator has no
  \<open>try\<close>, so the exception leaves \<open>validateDesignDNA\<close>.
\<close>

datatype js_error = TypeError

definition deref :: "'a option \<Rightarrow> js_error + 'a" where
  "deref v = (case v of None \<Rightarrow> Inl TypeError | Some x \<Rightarrow> Inr x)"

definition and_then :: "js_error + 'a \<Rightarrow> ('a \<Rightarrow> js_error + 'b) \<Rightarrow> js_error + 'b" where
  "and_then m f = (case m of Inl e \<Rightarrow> Inl e | Inr x \<Rightarrow> f x)"

text \<open>
  What the validator takes from outside the repository: the contrast function of chroma-js
  and the two renderings of a number as text, \<open>n.toFixed(2)\<close> and the \<open>${n}\<close> of a
  template literal.
\<close>

record runtime =
  contrast :: contrast_fn
  toFixed2 :: "real \<Rightarrow> string"
  numberToString :: "real \<Rightarrow> string"

text \<open>\<open>String.prototype.toLowerCase\<close> on ASCII text.\<close>

definition toLowerChar :: "char \<Rightarrow> char" where
  "toLowerChar ch =
     (case map_of (zip ''ABCDEFGHIJKLMNOPQRSTUVWXYZ'' ''abcdefghijklmnopqrstuvwxyz'') ch of
        Some d \<Rightarrow> d | None \<Rightarrow> ch)"

definition toLowerCase :: "string \<Rightarrow> string" where
  "toLowerCase s = map toLowerChar s"

text \<open>\<open>s.includes(f)\<close>: \<open>f\<close> occurs in \<open>s\<close> as a contiguous substring.\<close>

fun starts_with :: "string \<Rightarrow> string \<Rightarrow> bool" where
  "starts_with s [] = True"
| "starts_with [] (y # ys) = False"
| "starts_with (x # xs) (y # ys) = (x = y \<and> starts_with xs ys)"

fun str_includes :: "string \<Rightarrow> string \<Rightarrow> bool" where
  "str_includes [] f = (f = [])"
| "str_includes (x # xs) f = (starts_with (x # xs) f \<or> str_includes xs f)"

text \<open>\<open>xs.join(sep)\<close>.\<close>

fun join :: "string \<Rightarrow> string list \<Rightarrow> string" where
  "join sep [] = []"
| "join sep [x] = x"
| "join sep (x # y # ys) = x @ sep @ join sep (y # ys)"

text \<open>\<open>!n\<close> for a number and \<open>!s\<close> for a string that may be \<open>undefined\<close>.\<close>

definition falsy_num :: "real option \<Rightarrow> bool" where
  "falsy_num v = (case v of None \<Rightarrow> True | Some x \<Rightarrow> x = 0)"

definition falsy_str :: "string option \<Rightarrow> bool" where
  "falsy_str v = (case v of None \<Rightarrow> True | Some x \<Rightarrow> x = [])"

text \<open>\<open>xs[0]\<close> of an array: \<open>undefined\<close> when the array is empty.\<close>

definition first_entry :: "'a list \<Rightarrow> 'a option" where
  "first_entry xs = (case xs of [] \<Rightarrow> None | x # _ \<Rightarrow> Some x)"

text \<open>
  A property key computed from a value that may be \<open>undefined\<close>, and the same value
  inside a template literal: both give the text \<open>undefined\<close>.
\<close>

definition key_of :: "string option \<Rightarrow> string" where
  "key_of v = (case v of None \<Rightarrow> ''undefined'' | Some k \<Rightarrow> k)"

subsection \<open>Banned patterns\<close>

definition BANNED_FONTS :: "string list" where
  "BANNED_FONTS =
     [''inter'', ''roboto'', ''open sans'', ''poppins'', ''montserrat'',
      ''lato'', ''nunito'', ''source sans pro'', ''raleway'', ''oswald'']"

definition GENERIC_PERSONALITY_WORDS :: "string list" where
  "GENERIC_PERSONALITY_WORDS =
     [''modern'', ''clean'', ''professional'', ''simple'', ''elegant'',
      ''minimalist'', ''sleek'', ''beautiful'', ''nice'', ''good'']"

text \<open>\<open>BANNED_FONTS.some(f => font?.includes(f))\<close>.\<close>

definition is_banned :: "string option \<Rightarrow> bool" where
  "is_banned font =
     (case font of None \<Rightarrow> False | Some s \<Rightarrow> list_ex (\<lambda>f. str_includes s f) BANNED_FONTS)"

subsection \<open>validateDesignDNA, one definition for each numbered block\<close>

text \<open>
  Each block takes the arrays \<open>errors\<close> and \<open>warnings\<close> as they are when it starts
  and returns its score with the two arrays as it leaves them; \<open>push\<close> appends.
\<close>

type_synonym block_result = "js_error + (int \<times> string list \<times> string list)"

text \<open>
  1. Validate Color System. With \<open>statedContrast\<close> undefined the difference is
  \<open>NaN\<close> and \<open>NaN > 0.5\<close> is false: no warning.
\<close>

definition validateColor ::
  "runtime \<Rightarrow> DesignDNA \<Rightarrow> string list \<Rightarrow> string list \<Rightarrow> block_result" where
  \<open>validateColor rt dna errors warnings =
    and_then (deref (primitives dna)) (\<lambda>prim.
    and_then (deref (color prim)) (\<lambda>col.
      let colorScore = (4::int);
          (colorScore, errors) =
            (if model col \<noteq> Some ''oklch''
             then (1, errors @ [''Color model must be "oklch"''])
             else (colorScore, errors))
      in
    and_then (deref (palette col)) (\<lambda>pal.
      case (map_of pal ''text'', map_of pal ''background'') of
        (Some textColor, Some bgColor) \<Rightarrow>
          (let calculatedContrast = contrast rt textColor bgColor in
           and_then (deref (contrastRatios col)) (\<lambda>ratios.
             let statedContrast = textOnBackground ratios;
                 (colorScore, errors, warnings) =
                   (if calculatedContrast < 4.5
                    then (1,
                          errors @ [''Text contrast ratio ('' @ toFixed2 rt calculatedContrast
                                    @ '') fails WCAG AA (needs 4.5+)''],
                          warnings)
                    else (case statedContrast of
                            None \<Rightarrow> (colorScore, errors, warnings)
                          | Some stated \<Rightarrow>
                              if \<bar>calculatedContrast - stated\<bar> > 0.5
                              then (colorScore, errors,
                                    warnings @ [''Stated contrast ('' @ numberToString rt stated
                                                @ '') differs from calculated (''
                                                @ toFixed2 rt calculatedContrast @ '')''])
                              else (colorScore, errors, warnings)));
                 colorScore =
                   (if calculatedContrast \<ge> 7 then 4
                    else if calculatedContrast \<ge> 4.5 then 3
                    else colorScore)
             in Inr (colorScore, errors, warnings)))
      | _ \<Rightarrow> Inr (colorScore, errors, warnings))))\<close>

text \<open>2. Validate Typography.\<close>

definition validateTypography ::
  "DesignDNA \<Rightarrow> string list \<Rightarrow> string list \<Rightarrow> block_result" where
  \<open>validateTypography dna errors warnings =
    and_then (deref (primitives dna)) (\<lambda>prim.
    and_then (deref (typography prim)) (\<lambda>typo.
    and_then (deref (families typo)) (\<lambda>fam.
    and_then (deref (heading fam)) (\<lambda>headingStack.
    and_then (deref (body fam)) (\<lambda>bodyStack.
      let headingFont = map_option toLowerCase (first_entry headingStack);
          bodyFont = map_option toLowerCase (first_entry bodyStack);
          typographyScore = (4::int);
          (typographyScore, errors) =
            (if is_banned headingFont
             then (1, errors @ [''Heading font "'' @ key_of headingFont
                                @ ''" is banned (too common)''])
             else (typographyScore, errors));
          (typographyScore, errors) =
            (if is_banned bodyFont
             then (if bodyFont \<noteq> Some ''inter''
                   then (min typographyScore 2,
                         errors @ [''Body font "'' @ key_of bodyFont
                                   @ ''" is banned (too common)''])
                   else (typographyScore, errors))
             else (typographyScore, errors))
      in
    and_then (deref (scale typo)) (\<lambda>sc.
      let (typographyScore, errors) =
            (if falsy_num (ratio sc)
             then (1, errors @ [''Typography must define a modular scale ratio''])
             else (typographyScore, errors));
          warnings =
            (if length headingStack < 2
             then warnings @ [''Heading font stack should include fallbacks'']
             else warnings)
      in Inr (typographyScore, errors, warnings)))))))\<close>

text \<open>
  3. Validate Motion. The lookup \<open>springs?.[defaultSpring]\<close> is modelled on the own
  properties of the object; the names every object inherits (\<open>constructor\<close>,
  \<open>toString\<close>, ...) are not.
\<close>

definition validateMotion ::
  "DesignDNA \<Rightarrow> string list \<Rightarrow> string list \<Rightarrow> block_result" where
  \<open>validateMotion dna errors warnings =
    and_then (deref (primitives dna)) (\<lambda>prim.
    and_then (deref (motion prim)) (\<lambda>mo.
      let motionScore = (4::int);
          (motionScore, errors) =
            (if (case springs mo of None \<Rightarrow> True | Some sp \<Rightarrow> length (map fst sp) = 0)
             then (1, errors @ [''Motion must define spring physics (not just easing)''])
             else (motionScore, errors));
          (motionScore, warnings) =
            (if reducedMotion mo \<noteq> Some ''respectSystem''
             then (min motionScore 3,
                   warnings @ [''Consider setting reducedMotion to "respectSystem" for accessibility''])
             else (motionScore, warnings));
          found =
            (case springs mo of
               None \<Rightarrow> None
             | Some sp \<Rightarrow> map_of sp (key_of (defaultSpring mo)));
          (motionScore, errors) =
            (if found = None
             then (min motionScore 2,
                   errors @ [''Default spring "'' @ key_of (defaultSpring mo)
                             @ ''" not found in springs''])
             else (motionScore, errors))
      in Inr (motionScore, errors, warnings)))\<close>

text \<open>4. Validate Geometry. \<open>new Set(...)\<close> keeps one copy of each value.\<close>

definition validateGeometry ::
  "DesignDNA \<Rightarrow> string list \<Rightarrow> string list \<Rightarrow> block_result" where
  \<open>validateGeometry dna errors warnings =
    and_then (deref (primitives dna)) (\<lambda>prim.
    and_then (deref (geometry prim)) (\<lambda>geo.
    and_then (deref (borderRadius geo)) (\<lambda>radii.
      let radiusValues = map snd radii;
          uniqueRadii = remdups (filter (\<lambda>v. v \<noteq> ''0px'' \<and> v \<noteq> ''9999px'') radiusValues);
          geometryScore = (4::int);
          (geometryScore, warnings) =
            (if length uniqueRadii < 2
             then (3, warnings @ [''Border radius should vary by component type''])
             else (geometryScore, warnings));
          (geometryScore, errors) =
            (if (case spacing geo of None \<Rightarrow> True | Some sp \<Rightarrow> falsy_num (base sp))
             then (min geometryScore 2, errors @ [''Spacing must define a base unit''])
             else (geometryScore, errors))
      in Inr (geometryScore, errors, warnings))))\<close>

text \<open>5. Validate Uniqueness.\<close>

definition validateUniqueness ::
  "DesignDNA \<Rightarrow> string list \<Rightarrow> string list \<Rightarrow> block_result" where
  \<open>validateUniqueness dna errors warnings =
    and_then (deref (meta dna)) (\<lambda>me.
    and_then (deref (personality me)) (\<lambda>keywords.
      let genericPersonality =
            filter (\<lambda>p. toLowerCase p \<in> set GENERIC_PERSONALITY_WORDS) keywords;
          uniquenessScore = (4::int);
          (uniquenessScore, warnings) =
            (if length genericPersonality > 0
             then (min uniquenessScore 2,
                   warnings @ [''Generic personality words detected: ''
                               @ join '', '' genericPersonality])
             else (uniquenessScore, warnings))
      in
    and_then (deref (antiPatterns me)) (\<lambda>patterns.
      let (uniquenessScore, errors) =
            (if length patterns = 0
             then (min uniquenessScore 2,
                   errors @ [''Must define at least one anti-pattern to avoid''])
             else (uniquenessScore, errors));
          (uniquenessScore, errors) =
            (case (case generative dna of None \<Rightarrow> None | Some g \<Rightarrow> noise g) of
               None \<Rightarrow>
                 (min uniquenessScore 2,
                  errors @ [''Generative noise configuration is required''])
             | Some nz \<Rightarrow>
                 (let (uniquenessScore, errors) =
                        (if falsy_str (seed nz)
                         then (min uniquenessScore 2,
                               errors @ [''Generative noise must include a deterministic seed''])
                         else (uniquenessScore, errors))
                  in if layoutJitter nz = None
                     then (min uniquenessScore 2,
                           errors @ [''Generative noise must include layoutJitter settings''])
                     else (uniquenessScore, errors)))
      in Inr (uniquenessScore, errors, warnings))))\<close>

text \<open>
  \<open>interface ValidationResult\<close>; \<open>scores\<close> lists the categories in the order the
  source assigns them.
\<close>

record ValidationResult =
  valid :: bool
  errors :: "string list"
  warnings :: "string list"
  scores :: "(string \<times> int) list"

text \<open>
  6. Technical Validity, \<open>minScore = Math.min(...allScores)\<close> and the result object.
  (\<open>avgScore\<close> is computed by the source and never used.)
\<close>

definition overall ::
  "int \<Rightarrow> int \<Rightarrow> int \<Rightarrow> int \<Rightarrow> int \<Rightarrow> string list \<Rightarrow> string list \<Rightarrow> ValidationResult" where
  "overall colorScore typographyScore motionScore geometryScore uniquenessScore errs warns =
     (let scores =
            [(''colorSystem'', colorScore),
             (''typographySystem'', typographyScore),
             (''motionSystem'', motionScore),
             (''geometricSystem'', geometryScore),
             (''uniqueness'', uniquenessScore),
             (''technicalValidity'', if length errs = 0 then 4 else 2)];
          allScores = map snd scores;
          minScore = Min (set allScores)
      in \<lparr> valid = (minScore \<ge> 3 \<and> length errs = 0),
            errors = errs,
            warnings = warns,
            scores = scores \<rparr>)"

text \<open>The whole function: the blocks in the order of the source.\<close>

definition validateDesignDNA :: "runtime \<Rightarrow> DesignDNA \<Rightarrow> js_error + ValidationResult" where
  "validateDesignDNA rt dna =
    and_then (validateColor rt dna [] []) (\<lambda>(colorScore, errors, warnings).
    and_then (validateTypography dna errors warnings) (\<lambda>(typographyScore, errors, warnings).
    and_then (validateMotion dna errors warnings) (\<lambda>(motionScore, errors, warnings).
    and_then (validateGeometry dna errors warnings) (\<lambda>(geometryScore, errors, warnings).
    and_then (validateUniqueness dna errors warnings) (\<lambda>(uniquenessScore, errors, warnings).
      Inr (overall colorScore typographyScore motionScore geometryScore uniquenessScore
             errors warnings))))))"

subsection \<open>Concrete documents\<close>

text \<open>
  The runtime that the concrete evaluations below use. None of the documents evaluated
  reaches a message that contains a number, so the two renderings are placeholders.
\<close>

definition sampleRuntime :: runtime where
  "sampleRuntime =
     \<lparr> contrast = neutralContrast, toFixed2 = (\<lambda>x. ''#''), numberToString = (\<lambda>x. ''#'') \<rparr>"

text \<open>
  The colours are those of \<open>generatePalette(220, 'split-complementary', false)\<close> before
  repair; the font stacks are those of the example "Typography: Good" of the repository's
  constraints document.
\<close>

definition sampleColor :: ColorSection where
  "sampleColor =
     \<lparr> model = Some ''oklch'',
       palette = Some [(''primary'', \<lparr>col_l = 0.45, col_c = 0.15, col_h = 220\<rparr>),
                       (''background'', \<lparr>col_l = 0.98, col_c = 0.01, col_h = 220\<rparr>),
                       (''text'', \<lparr>col_l = 0.18, col_c = 0.02, col_h = 220\<rparr>)],
       contrastRatios = Some \<lparr> textOnBackground = Some 17.75 \<rparr> \<rparr>"

definition sampleTypography :: Typography where
  "sampleTypography =
     \<lparr> scale = Some \<lparr> ratio = Some 1.25 \<rparr>,
       families = Some \<lparr> heading = Some [''Instrument Serif'', ''Georgia'', ''serif''],
                          body = Some [''Satoshi'', ''system-ui'', ''sans-serif''] \<rparr> \<rparr>"

definition sampleMotion :: Motion where
  "sampleMotion =
     \<lparr> springs = Some [(''gentle'', \<lparr>stiffness = 120, damping = 14, mass = 1\<rparr>)],
       defaultSpring = Some ''gentle'',
       reducedMotion = Some ''respectSystem'' \<rparr>"

definition sampleGeometry :: Geometry where
  "sampleGeometry =
     \<lparr> borderRadius = Some [(''none'', ''0px''), (''button'', ''6px''), (''card'', ''14px''),
                            (''pill'', ''9999px'')],
       spacing = Some \<lparr> base = Some 8 \<rparr> \<rparr>"

definition samplePrimitives :: Primitives where
  "samplePrimitives =
     \<lparr> color = Some sampleColor, typography = Some sampleTypography,
       motion = Some sampleMotion, geometry = Some sampleGeometry \<rparr>"

definition sampleMeta :: Meta where
  "sampleMeta =
     \<lparr> personality = Some [''brutalist'', ''warm''],
       antiPatterns = Some [''centered hero with gradient''] \<rparr>"

definition sampleGenerative :: Generative where
  "sampleGenerative =
     \<lparr> noise = Some \<lparr> seed = Some ''acme-2024'',
                       layoutJitter = Some \<lparr>maxOffset = 4, rotationRange = [-1, 1]\<rparr> \<rparr> \<rparr>"

text \<open>A document that passes.\<close>

definition sampleDNA :: DesignDNA where
  "sampleDNA =
     \<lparr> meta = Some sampleMeta, primitives = Some samplePrimitives,
       generative = Some sampleGenerative \<rparr>"


text \<open>The same document with the colour model \<open>hex\<close>.\<close>

definition hexDNA :: DesignDNA where
  "hexDNA =
     sampleDNA\<lparr> primitives :=
       Some (samplePrimitives\<lparr> color := Some (sampleColor\<lparr> model := Some ''hex'' \<rparr>) \<rparr>) \<rparr>"

text \<open>The same document with the font stacks replaced.\<close>

definition withFamilies :: "Families option \<Rightarrow> DesignDNA" where
  "withFamilies fam =
     sampleDNA\<lparr> primitives :=
       Some (samplePrimitives\<lparr> typography := Some (sampleTypography\<lparr> families := fam \<rparr>) \<rparr>) \<rparr>"

definition interBodyDNA :: DesignDNA where
  "interBodyDNA =
     withFamilies (Some \<lparr> heading = Some [''Instrument Serif'', ''Georgia'', ''serif''],
                           body = Some [''Inter'', ''sans-serif''] \<rparr>)"

definition interHeadingDNA :: DesignDNA where
  "interHeadingDNA =
     withFamilies (Some \<lparr> heading = Some [''Inter'', ''sans-serif''],
                           body = Some [''Satoshi'', ''system-ui'', ''sans-serif''] \<rparr>)"





subsection \<open>The reports of the concrete documents\<close>

text \<open>
  What \<open>validateDesignDNA\<close> returns on the documents above (lemmas \<open>run_sampleDNA\<close>
  and following prove it).
\<close>

definition sampleReport :: ValidationResult where
  "sampleReport =
     \<lparr> valid = True, errors = [], warnings = [],
       scores = [(''colorSystem'', 4), (''typographySystem'', 4), (''motionSystem'', 4),
                 (''geometricSystem'', 4), (''uniqueness'', 4), (''technicalValidity'', 4)] \<rparr>"


definition hexReport :: ValidationResult where
  \<open>hexReport =
     \<lparr> valid = False, errors = [''Color model must be "oklch"''], warnings = [],
       scores = [(''colorSystem'', 4), (''typographySystem'', 4), (''motionSystem'', 4),
                 (''geometricSystem'', 4), (''uniqueness'', 4), (''technicalValidity'', 2)] \<rparr>\<close>

definition interHeadingReport :: ValidationResult where
  \<open>interHeadingReport =
     \<lparr> valid = False, errors = [''Heading font "inter" is banned (too common)''],
       warnings = [],
       scores = [(''colorSystem'', 4), (''typographySystem'', 1), (''motionSystem'', 4),
                 (''geometricSystem'', 4), (''uniqueness'', 4), (''technicalValidity'', 2)] \<rparr>\<close>

section \<open>Properties of the palette generator\<close>

subsection \<open>Hue normalisation\<close>

lemma js_rem_nonneg: "0 \<le> x \<Longrightarrow> js_rem x 360 = x - 360 * of_int \<lfloor>x / 360\<rfloor>"
  by (simp add: js_rem_def js_trunc_def)

lemma floor_range:
  "0 \<le> x - 360 * of_int \<lfloor>x / 360 :: real\<rfloor> \<and> x - 360 * of_int \<lfloor>x / 360\<rfloor> < 360"
proof -
  have "of_int \<lfloor>x / 360\<rfloor> \<le> x / 360" "x / 360 < of_int \<lfloor>x / 360\<rfloor> + 1"
    by linarith+
  then show ?thesis by (simp add: field_simps)
qed

lemma floor_unique_360:
  assumes "0 \<le> y - 360 * of_int k" "y - 360 * of_int k < (360::real)"
  shows "\<lfloor>y / 360\<rfloor> = k"
proof -
  have "of_int k \<le> y / 360" "y / 360 < of_int k + 1"
    using assms by (simp_all add: field_simps)
  then show ?thesis by linarith
qed

text \<open>The two truncated remainders of the source compute the mathematical modulus.\<close>

lemma normalizeHue_floor: "normalizeHue x = x - 360 * of_int \<lfloor>x / 360\<rfloor>"
proof -
  define q where "q = \<lfloor>x / 360\<rfloor>"
  define r where "r = x - 360 * of_int q"
  have r: "0 \<le> r" "r < 360" using floor_range[of x] by (simp_all add: r_def q_def)
  show ?thesis
  proof (cases "0 \<le> x")
    case True
    then have 1: "js_rem x 360 = r" by (simp add: js_rem_nonneg r_def q_def)
    have "\<lfloor>(r + 360) / 360\<rfloor> = 1" using r by (intro floor_unique_360) simp_all
    then have "js_rem (r + 360) 360 = r" using r by (simp add: js_rem_nonneg)
    then show ?thesis by (simp add: normalizeHue_def 1 r_def q_def)
  next
    case False
    then have neg: "x / 360 < 0" by simp
    show ?thesis
    proof (cases "of_int q = x / 360")
      case True
      then have "\<lceil>x / 360\<rceil> = q" by (metis ceiling_of_int)
      then have 1: "js_rem x 360 = 0" using neg True by (simp add: js_rem_def js_trunc_def)
      have 2: "js_rem 360 360 = 0" by (simp add: js_rem_def js_trunc_def)
      have "r = 0" using True by (simp add: r_def)
      then show ?thesis using 2 by (simp add: normalizeHue_def 1 r_def q_def)
    next
      case False
      then have "\<lceil>x / 360\<rceil> = q + 1" unfolding q_def by linarith
      then have 1: "js_rem x 360 = r - 360" using neg by (simp add: js_rem_def js_trunc_def r_def)
      have "r \<noteq> 0" using False by (auto simp: r_def)
      then have "0 < r" using r by simp
      then have "\<lfloor>r / 360\<rfloor> = 0" using r by (intro floor_unique_360) simp_all
      then have "js_rem r 360 = r" using r by (simp add: js_rem_nonneg)
      then show ?thesis by (simp add: normalizeHue_def 1 r_def q_def)
    qed
  qed
qed

lemma normalizeHue_range: "0 \<le> normalizeHue x \<and> normalizeHue x < 360"
  using floor_range[of x] by (simp add: normalizeHue_floor)



subsection \<open>The repair loop\<close>

lemma loop_frame:
  "col_c (ensureContrast_loop cr bg m a) = col_c a \<and>
   col_h (ensureContrast_loop cr bg m a) = col_h a"
proof (induction cr bg m a rule: ensureContrast_loop.induct)
  case (1 cr bg m a)
  show ?case
  proof (cases "loop_guard cr bg m a")
    case True
    with 1 show ?thesis
      by (subst (1 2) ensureContrast_loop.simps) (simp add: adjust_step_def)
  next
    case False
    then show ?thesis by (simp add: ensureContrast_loop.simps)
  qed
qed

lemma loop_exit: "\<not> loop_guard cr bg m (ensureContrast_loop cr bg m a)"
proof (induction cr bg m a rule: ensureContrast_loop.induct)
  case (1 cr bg m a)
  show ?case
  proof (cases "loop_guard cr bg m a")
    case True
    with 1 show ?thesis by (subst ensureContrast_loop.simps) simp
  next
    case False
    then show ?thesis by (simp add: ensureContrast_loop.simps)
  qed
qed

lemma loop_funpow:
  "ensureContrast_loop cr bg m a = (adjust_step bg ^^ iterations cr bg m a) a"
proof (induction cr bg m a rule: ensureContrast_loop.induct)
  case (1 cr bg m a)
  show ?case
  proof (cases "loop_guard cr bg m a")
    case True
    with 1 show ?thesis
      by (subst ensureContrast_loop.simps, subst iterations.simps) (simp add: funpow_swap1)
  next
    case False
    then show ?thesis by (simp add: ensureContrast_loop.simps iterations.simps)
  qed
qed

lemma funpow_adjust_l:
  "col_l ((adjust_step bg ^^ n) a) = col_l a + direction bg * 0.02 * real n"
  by (induction n) (simp_all add: col_l_adjust_step algebra_simps)

lemma iterations_le_steps_left: "iterations cr bg m a \<le> steps_left bg a"
proof (induction cr bg m a rule: iterations.induct)
  case (1 cr bg m a)
  show ?case
  proof (cases "loop_guard cr bg m a")
    case True
    then have "steps_left bg (adjust_step bg a) < steps_left bg a"
      by (simp add: loop_guard_def steps_left_decreases)
    with 1 True show ?thesis by (subst iterations.simps) simp
  next
    case False
    then show ?thesis by (simp add: iterations.simps)
  qed
qed

lemma steps_left_le_45:
  assumes "col_l a > 0.05" "col_l a < 0.95"
  shows "steps_left bg a \<le> 45"
proof -
  have "(col_l a - 0.05) / 0.02 \<le> 45" "(0.95 - col_l a) / 0.02 \<le> 45"
    using assms by simp_all
  then have "\<lceil>(col_l a - 0.05) / 0.02\<rceil> \<le> 45" "\<lceil>(0.95 - col_l a) / 0.02\<rceil> \<le> 45"
    by (simp_all add: ceiling_le_iff)
  then show ?thesis by (simp add: steps_left_def)
qed

lemma iterations_le_45: "iterations cr bg m a \<le> 45"
proof (cases "loop_guard cr bg m a")
  case True
  then have "steps_left bg a \<le> 45" by (simp add: loop_guard_def steps_left_le_45)
  with iterations_le_steps_left [of cr bg m a] show ?thesis by simp
next
  case False
  then show ?thesis by (simp add: iterations.simps)
qed

lemma loop_lightness:
  "ensureContrast_loop cr bg m a = a \<or>
   (0.03 < col_l (ensureContrast_loop cr bg m a) \<and> col_l (ensureContrast_loop cr bg m a) < 0.97)"
proof (induction cr bg m a rule: ensureContrast_loop.induct)
  case (1 cr bg m a)
  show ?case
  proof (cases "loop_guard cr bg m a")
    case True
    then have "0.03 < col_l (adjust_step bg a) \<and> col_l (adjust_step bg a) < 0.97"
      by (simp add: loop_guard_def col_l_adjust_step direction_def)
    moreover have e: "ensureContrast_loop cr bg m a = ensureContrast_loop cr bg m (adjust_step bg a)"
      using True by (subst ensureContrast_loop.simps) simp
    ultimately show ?thesis using 1 [OF True] by (simp only: e) auto
  next
    case False
    then show ?thesis by (simp add: ensureContrast_loop.simps)
  qed
qed

lemma ensureContrast_frame:
  "col_c (ensureContrast cr fg bg m) = col_c fg \<and> col_h (ensureContrast cr fg bg m) = col_h fg"
  by (simp add: ensureContrast_def loop_frame)

lemma ensureContrast_exit:
  "m \<le> cr (ensureContrast cr fg bg m) bg \<or> col_l (ensureContrast cr fg bg m) \<le> 0.05
     \<or> 0.95 \<le> col_l (ensureContrast cr fg bg m)"
  using loop_exit [of cr bg m fg] by (auto simp: ensureContrast_def loop_guard_def)

text \<open>
  A target that the contrast function never reaches drives the light-theme text colour
  from lightness 0.18 to 0.04, whatever the contrast function is.
\<close>

lemma unreachable_target_overshoots:
  assumes "\<And>a b. cr a b < m"
  shows "col_l (ensureContrast cr \<lparr>col_l = 0.18, col_c = 0.02, col_h = 220\<rparr>
           \<lparr>col_l = 0.98, col_c = 0.01, col_h = 220\<rparr> m) = 0.04"
  by (simp add: ensureContrast_def ensureContrast_loop.simps loop_guard_def adjust_step_def
      direction_def assms)

lemma neutralContrast_range:
  assumes "0 \<le> col_l a" "col_l a \<le> 1" "0 \<le> col_l b" "col_l b \<le> 1"
  shows "1 \<le> neutralContrast a b \<and> neutralContrast a b \<le> 21"
proof -
  define hi where "hi = max ((col_l a) ^ 3) ((col_l b) ^ 3)"
  define lo where "lo = min ((col_l a) ^ 3) ((col_l b) ^ 3)"
  have a: "0 \<le> (col_l a) ^ 3" "(col_l a) ^ 3 \<le> 1"
    using assms(1,2) by (simp_all add: power_le_one)
  have b: "0 \<le> (col_l b) ^ 3" "(col_l b) ^ 3 \<le> 1"
    using assms(3,4) by (simp_all add: power_le_one)
  have r: "0 \<le> lo" "lo \<le> hi" "hi \<le> 1"
    using a b by (simp_all add: hi_def lo_def)
  have e: "neutralContrast a b = (hi + 0.05) / (lo + 0.05)"
    by (simp add: neutralContrast_def Let_def hi_def lo_def)
  have "lo + 0.05 \<le> hi + 0.05" "hi + 0.05 \<le> 21 * (lo + 0.05)" "0 < lo + 0.05"
    using r by simp_all
  then show ?thesis unfolding e by (simp add: field_simps)
qed

lemma repair_fields:
  "text_role (repair cr p) = ensureContrast cr (text_role p) (background p) 7 \<and>
   primary (repair cr p) = ensureContrast cr (primary p) (background p) 4.5 \<and>
   background (repair cr p) = background p \<and> secondary (repair cr p) = secondary p \<and>
   accent (repair cr p) = accent p \<and> muted (repair cr p) = muted p \<and>
   border (repair cr p) = border p"
  by (simp add: repair_def Let_def)



subsection \<open>Claims about the palette generator\<close>


text \<open>
  C5, as stated, fails. With a target no contrast ratio reaches (22), the repair of the
  initial light-theme text colour (lightness 0.18) against the light background steps
  0.18, 0.16, ..., 0.06, 0.04: the guard is tested before the step and nothing clamps
  the result, which ends below 0.05.
\<close>

theorem ensureContrast_overshoot_counterexample:
  "col_l (ensureContrast neutralContrast \<lparr>col_l = 0.18, col_c = 0.02, col_h = 220\<rparr>
      \<lparr>col_l = 0.98, col_c = 0.01, col_h = 220\<rparr> 22) < 0.05"
  by (simp add: ensureContrast_def ensureContrast_loop.simps loop_guard_def adjust_step_def
      direction_def neutralContrast_def power3_eq_cube)

text \<open>
  C5, amended. \<open>ensureContrast\<close> is total (it raises nothing) and returns either the
  foreground unchanged or a colour whose lightness lies strictly between 0.03 and 0.97,
  that is at most one step of 0.02 beyond the interval [0.05, 0.95]; and when the
  returned colour misses the target ratio, its lightness is outside the open interval
  (0.05, 0.95).
\<close>

theorem ensureContrast_lightness:
  "(ensureContrast cr fg bg minRatio = fg
      \<or> (0.03 < col_l (ensureContrast cr fg bg minRatio)
           \<and> col_l (ensureContrast cr fg bg minRatio) < 0.97))
   \<and> (minRatio \<le> cr (ensureContrast cr fg bg minRatio) bg
        \<or> col_l (ensureContrast cr fg bg minRatio) \<le> 0.05
        \<or> 0.95 \<le> col_l (ensureContrast cr fg bg minRatio))"
  using loop_lightness [of cr bg minRatio fg] ensureContrast_exit [of minRatio cr fg bg]
  by (simp add: ensureContrast_def)

text \<open>
  C6. The repair loop is a total function (its termination is proved with the variant
  \<open>steps_left\<close>), and for every foreground, background, target and contrast function
  its body runs \<open>iterations\<close> times, which is at most 45: the result is the foreground
  after that many steps, each moving the lightness by 0.02 in the fixed direction.
\<close>

theorem ensureContrast_terminates_within_45:
  "ensureContrast cr fg bg minRatio = (adjust_step bg ^^ iterations cr bg minRatio fg) fg
   \<and> col_l (ensureContrast cr fg bg minRatio)
       = col_l fg + direction bg * 0.02 * real (iterations cr bg minRatio fg)
   \<and> iterations cr bg minRatio fg \<le> 45"
  using loop_funpow [of cr bg minRatio fg] iterations_le_45 [of cr bg minRatio fg]
  by (simp add: ensureContrast_def funpow_adjust_l)



text \<open>
  C10. \<open>ensureContrast\<close> returns a colour with the chroma and the hue of its foreground
  argument; and in every generated palette the roles background, secondary, accent, muted
  and border, and the chroma and hue of text and primary, are those of the palette built
  by the switch on the mode.
\<close>

theorem repair_changes_lightness_only:
  "col_c (ensureContrast cr fg bg minRatio) = col_c fg
   \<and> col_h (ensureContrast cr fg bg minRatio) = col_h fg
   \<and> (let I = initialPalette (normalizeHue baseHue) mode isDark;
           P = generatePalette cr baseHue mode isDark
       in background P = background I \<and> secondary P = secondary I \<and> accent P = accent I
          \<and> muted P = muted I \<and> border P = border I
          \<and> col_c (text_role P) = col_c (text_role I) \<and> col_h (text_role P) = col_h (text_role I)
          \<and> col_c (primary P) = col_c (primary I) \<and> col_h (primary P) = col_h (primary I))"
  by (simp add: Let_def generatePalette_def repair_fields ensureContrast_frame)

section \<open>Properties of the validator\<close>

subsection \<open>Substrings\<close>

text \<open>\<open>str_includes\<close> is the substring test of \<open>String.prototype.includes\<close>.\<close>

lemma starts_with_iff: "starts_with s f \<longleftrightarrow> (\<exists>q. s = f @ q)"
  by (induction s f rule: starts_with.induct) auto

lemma str_includes_iff: "str_includes s f \<longleftrightarrow> (\<exists>p q. s = p @ f @ q)"
proof (induction s)
  case Nil
  then show ?case by simp
next
  case (Cons x xs)
  show ?case
  proof
    assume "str_includes (x # xs) f"
    then consider "starts_with (x # xs) f" | "str_includes xs f" by auto
    then show "\<exists>p q. x # xs = p @ f @ q"
    proof cases
      case 1
      then obtain q where "x # xs = f @ q" unfolding starts_with_iff ..
      then have "x # xs = [] @ f @ q" by simp
      then show ?thesis by blast
    next
      case 2
      with Cons obtain p q where "xs = p @ f @ q" by blast
      then have "x # xs = (x # p) @ f @ q" by simp
      then show ?thesis by blast
    qed
  next
    assume "\<exists>p q. x # xs = p @ f @ q"
    then obtain p q where e: "x # xs = p @ f @ q" by blast
    show "str_includes (x # xs) f"
    proof (cases p)
      case Nil
      with e have "starts_with (x # xs) f" unfolding starts_with_iff by auto
      then show ?thesis by simp
    next
      case (Cons y ys)
      with e have "xs = ys @ f @ q" by simp
      then have "str_includes xs f" using Cons.IH by blast
      then show ?thesis by simp
    qed
  qed
qed

subsection \<open>Sequencing\<close>

lemma and_then_simps:
  "and_then (Inl e) f = Inl e" "and_then (Inr x) f = f x"
  by (simp_all add: and_then_def)

lemma deref_simps: "deref None = Inl TypeError" "deref (Some x) = Inr x"
  by (simp_all add: deref_def)

lemma and_then_weak_cong: "m = m' \<Longrightarrow> and_then m f = and_then m' f"
  by simp

lemma and_then_Inr_iff: "and_then m f = Inr r \<longleftrightarrow> (\<exists>x. m = Inr x \<and> f x = Inr r)"
  by (cases m) (simp_all add: and_then_def)

lemma deref_Inr_iff: "deref v = Inr x \<longleftrightarrow> v = Some x"
  by (cases v) (simp_all add: deref_def)

text \<open>
  The function returns exactly when its five blocks return in turn, and then its result
  is \<open>overall\<close> of their scores and of the arrays the last block leaves.
\<close>

lemma validateDesignDNA_Inl:
  "validateColor rt dna [] [] = Inl e \<Longrightarrow> validateDesignDNA rt dna = Inl e"
  "validateColor rt dna [] [] = Inr (cs, e1, w1) \<Longrightarrow> validateTypography dna e1 w1 = Inl e
     \<Longrightarrow> validateDesignDNA rt dna = Inl e"
  "validateColor rt dna [] [] = Inr (cs, e1, w1) \<Longrightarrow>
   validateTypography dna e1 w1 = Inr (ts, e2, w2) \<Longrightarrow> validateMotion dna e2 w2 = Inl e
     \<Longrightarrow> validateDesignDNA rt dna = Inl e"
  "validateColor rt dna [] [] = Inr (cs, e1, w1) \<Longrightarrow>
   validateTypography dna e1 w1 = Inr (ts, e2, w2) \<Longrightarrow>
   validateMotion dna e2 w2 = Inr (ms, e3, w3) \<Longrightarrow> validateGeometry dna e3 w3 = Inl e
     \<Longrightarrow> validateDesignDNA rt dna = Inl e"
  "validateColor rt dna [] [] = Inr (cs, e1, w1) \<Longrightarrow>
   validateTypography dna e1 w1 = Inr (ts, e2, w2) \<Longrightarrow>
   validateMotion dna e2 w2 = Inr (ms, e3, w3) \<Longrightarrow>
   validateGeometry dna e3 w3 = Inr (gs, e4, w4) \<Longrightarrow> validateUniqueness dna e4 w4 = Inl e
     \<Longrightarrow> validateDesignDNA rt dna = Inl e"
  by (simp_all only: validateDesignDNA_def and_then_simps prod.case)

lemma validateDesignDNA_Inr:
  "validateColor rt dna [] [] = Inr (cs, e1, w1) \<Longrightarrow>
   validateTypography dna e1 w1 = Inr (ts, e2, w2) \<Longrightarrow>
   validateMotion dna e2 w2 = Inr (ms, e3, w3) \<Longrightarrow>
   validateGeometry dna e3 w3 = Inr (gs, e4, w4) \<Longrightarrow>
   validateUniqueness dna e4 w4 = Inr (us, e5, w5) \<Longrightarrow>
   validateDesignDNA rt dna = Inr (overall cs ts ms gs us e5 w5)"
  by (simp only: validateDesignDNA_def and_then_simps prod.case)

lemma validateDesignDNA_blocks:
  assumes "validateDesignDNA rt dna = Inr r"
  shows "\<exists>cs e1 w1 ts e2 w2 ms e3 w3 gs e4 w4 us e5 w5.
    validateColor rt dna [] [] = Inr (cs, e1, w1) \<and>
    validateTypography dna e1 w1 = Inr (ts, e2, w2) \<and>
    validateMotion dna e2 w2 = Inr (ms, e3, w3) \<and>
    validateGeometry dna e3 w3 = Inr (gs, e4, w4) \<and>
    validateUniqueness dna e4 w4 = Inr (us, e5, w5) \<and>
    r = overall cs ts ms gs us e5 w5"
proof -
  obtain cs e1 w1 where 1: "validateColor rt dna [] [] = Inr (cs, e1, w1)"
    using assms validateDesignDNA_Inl(1) [of rt dna]
    by (cases "validateColor rt dna [] []") auto
  obtain ts e2 w2 where 2: "validateTypography dna e1 w1 = Inr (ts, e2, w2)"
    using assms validateDesignDNA_Inl(2) [OF 1]
    by (cases "validateTypography dna e1 w1") auto
  obtain ms e3 w3 where 3: "validateMotion dna e2 w2 = Inr (ms, e3, w3)"
    using assms validateDesignDNA_Inl(3) [OF 1 2]
    by (cases "validateMotion dna e2 w2") auto
  obtain gs e4 w4 where 4: "validateGeometry dna e3 w3 = Inr (gs, e4, w4)"
    using assms validateDesignDNA_Inl(4) [OF 1 2 3]
    by (cases "validateGeometry dna e3 w3") auto
  obtain us e5 w5 where 5: "validateUniqueness dna e4 w4 = Inr (us, e5, w5)"
    using assms validateDesignDNA_Inl(5) [OF 1 2 3 4]
    by (cases "validateUniqueness dna e4 w4") auto
  have 6: "r = overall cs ts ms gs us e5 w5"
    using assms validateDesignDNA_Inr [OF 1 2 3 4 5] by simp
  from 1 2 3 4 5 6 show ?thesis by (intro exI conjI)
qed

lemma overall_fields:
  "errors (overall cs ts ms gs us es ws) = es"
  "warnings (overall cs ts ms gs us es ws) = ws"
  "scores (overall cs ts ms gs us es ws) =
     [(''colorSystem'', cs), (''typographySystem'', ts), (''motionSystem'', ms),
      (''geometricSystem'', gs), (''uniqueness'', us),
      (''technicalValidity'', if es = [] then 4 else 2)]"
  unfolding overall_def Let_def
  by (simp_all only: ValidationResult.select_convs length_0_conv)

lemma overall_valid:
  "valid (overall cs ts ms gs us es ws) \<longleftrightarrow>
     3 \<le> Min (set (map snd (scores (overall cs ts ms gs us es ws)))) \<and> es = []"
  unfolding overall_fields(3) unfolding overall_def Let_def
  by (simp only: ValidationResult.select_convs length_0_conv)

subsection \<open>The blocks\<close>

text \<open>
  Every block only appends to \<open>errors\<close>; outside the typography block no message
  begins with \<open>Body font\<close>.
\<close>

lemma validateColor_errors:
  assumes "validateColor rt dna es ws = Inr (s, es', ws')"
  shows "\<exists>new. es' = es @ new \<and> list_all (\<lambda>e. \<not> starts_with e ''Body font'') new"
  using assms
  by (auto simp: validateColor_def and_then_def deref_def Let_def
      split: if_splits option.splits)

lemma validateTypography_errors:
  assumes "validateTypography dna es ws = Inr (s, es', ws')"
  shows "\<exists>new. es' = es @ new"
  using assms
  by (auto simp: validateTypography_def and_then_def deref_def Let_def
      split: if_splits option.splits)

lemma validateMotion_errors:
  assumes "validateMotion dna es ws = Inr (s, es', ws')"
  shows "\<exists>new. es' = es @ new \<and> list_all (\<lambda>e. \<not> starts_with e ''Body font'') new"
  using assms unfolding validateMotion_def and_then_Inr_iff deref_Inr_iff
  by (auto simp: Let_def split: if_splits)

lemma validateGeometry_errors:
  assumes "validateGeometry dna es ws = Inr (s, es', ws')"
  shows "\<exists>new. es' = es @ new \<and> list_all (\<lambda>e. \<not> starts_with e ''Body font'') new"
  using assms unfolding validateGeometry_def and_then_Inr_iff deref_Inr_iff
  by (auto simp: Let_def split: if_splits)

lemma validateUniqueness_errors:
  assumes "validateUniqueness dna es ws = Inr (s, es', ws')"
  shows "\<exists>new. es' = es @ new \<and> list_all (\<lambda>e. \<not> starts_with e ''Body font'') new"
  using assms
  by (auto simp: validateUniqueness_def and_then_Inr_iff deref_Inr_iff Let_def
     split: if_splits option.splits)

lemma is_banned_inter:
  "str_includes s ''inter'' \<Longrightarrow> is_banned (Some s)"
  by (simp add: is_banned_def BANNED_FONTS_def)

lemma validateTypography_inter_body:
  assumes "validateTypography dna es ws = Inr (s, es', ws')"
    and "primitives dna = Some prim" "typography prim = Some typo" "families typo = Some fam"
    and "heading fam = Some hs" "body fam = Some bs" "scale typo = Some sc"
    and "map_option toLowerCase (first_entry bs) = Some ''inter''"
  shows "s = (if is_banned (map_option toLowerCase (first_entry hs)) \<or> falsy_num (ratio sc)
              then 1 else 4)"
    and "\<exists>new. es' = es @ new \<and> list_all (\<lambda>e. \<not> starts_with e ''Body font'') new"
  using assms
  by (auto simp: validateTypography_def and_then_simps deref_simps Let_def
      split: if_splits)

lemma validateTypography_banned_heading:
  assumes "validateTypography dna es ws = Inr (s, es', ws')"
    and "primitives dna = Some prim" "typography prim = Some typo" "families typo = Some fam"
    and "heading fam = Some hs" "body fam = Some bs" "scale typo = Some sc"
    and "first_entry hs = Some f" "is_banned (Some (toLowerCase f))"
  shows "s = 1"
    and \<open>''Heading font "'' @ toLowerCase f @ ''" is banned (too common)'' \<in> set es'\<close>
  using assms
  by (auto simp: validateTypography_def and_then_simps deref_simps Let_def key_of_def
      split: if_splits)

lemma validateColor_score:
  assumes "validateColor rt dna es ws = Inr (s, es', ws')"
    and "primitives dna = Some prim" "color prim = Some col" "palette col = Some pal"
    and "model col \<noteq> Some ''oklch''"
  shows \<open>''Color model must be "oklch"'' \<in> set es'\<close>
    and "s = (case (map_of pal ''text'', map_of pal ''background'') of
                (Some t, Some b) \<Rightarrow>
                  if 7 \<le> contrast rt t b then 4
                  else if 4.5 \<le> contrast rt t b then 3 else 1
              | _ \<Rightarrow> 1)"
  using assms
  by (auto simp: validateColor_def and_then_Inr_iff deref_Inr_iff Let_def
      split: if_splits option.splits)









lemma errors_chain:
  assumes "validateDesignDNA rt dna = Inr r"
  shows "\<exists>cs e1 w1 ts e2 w2 n3 n4 n5.
     validateColor rt dna [] [] = Inr (cs, e1, w1) \<and>
     validateTypography dna e1 w1 = Inr (ts, e2, w2) \<and>
     errors r = e2 @ n3 @ n4 @ n5 \<and>
     list_all (\<lambda>e. \<not> starts_with e ''Body font'') (n3 @ n4 @ n5) \<and>
     map_of (scores r) ''colorSystem'' = Some cs \<and>
     map_of (scores r) ''typographySystem'' = Some ts \<and>
     (valid r \<longrightarrow> errors r = [])"
proof -
  from validateDesignDNA_blocks [OF assms]
  obtain cs e1 w1 ts e2 w2 ms e3 w3 gs e4 w4 us e5 w5 where b:
    "validateColor rt dna [] [] = Inr (cs, e1, w1)"
    "validateTypography dna e1 w1 = Inr (ts, e2, w2)"
    "validateMotion dna e2 w2 = Inr (ms, e3, w3)"
    "validateGeometry dna e3 w3 = Inr (gs, e4, w4)"
    "validateUniqueness dna e4 w4 = Inr (us, e5, w5)"
    and r: "r = overall cs ts ms gs us e5 w5"
    by (elim exE conjE)
  from validateMotion_errors [OF b(3)] obtain n3 where
    n3: "e3 = e2 @ n3" "list_all (\<lambda>e. \<not> starts_with e ''Body font'') n3" by (elim exE conjE)
  from validateGeometry_errors [OF b(4)] obtain n4 where
    n4: "e4 = e3 @ n4" "list_all (\<lambda>e. \<not> starts_with e ''Body font'') n4" by (elim exE conjE)
  from validateUniqueness_errors [OF b(5)] obtain n5 where
    n5: "e5 = e4 @ n5" "list_all (\<lambda>e. \<not> starts_with e ''Body font'') n5" by (elim exE conjE)
  have e: "errors r = e2 @ n3 @ n4 @ n5"
    unfolding r overall_fields(1) using n3(1) n4(1) n5(1) by simp
  have p: "list_all (\<lambda>e. \<not> starts_with e ''Body font'') (n3 @ n4 @ n5)"
    using n3(2) n4(2) n5(2) by simp
  have c: "map_of (scores r) ''colorSystem'' = Some cs"
    unfolding r overall_fields(3) by simp
  have t: "map_of (scores r) ''typographySystem'' = Some ts"
    unfolding r overall_fields(3) by simp
  have v: "valid r \<longrightarrow> errors r = []"
    unfolding r overall_fields(1) using overall_valid [of cs ts ms gs us e5 w5] by simp
  from b(1) b(2) e p c t v show ?thesis by (intro exI conjI)
qed

subsection \<open>Running the validator on the concrete documents\<close>

lemmas block_defs = validateColor_def validateTypography_def validateMotion_def
  validateGeometry_def validateUniqueness_def

lemmas runtime_defs = and_then_simps deref_simps is_banned_def BANNED_FONTS_def
  GENERIC_PERSONALITY_WORDS_def toLowerCase_def toLowerChar_def first_entry_def key_of_def
  falsy_num_def falsy_str_def overall_def

lemmas sample_defs = sampleRuntime_def sampleDNA_def sampleMeta_def samplePrimitives_def
  sampleColor_def sampleTypography_def sampleMotion_def sampleGeometry_def sampleGenerative_def
  neutralContrast_def power3_eq_cube



lemma run_hexDNA: "validateDesignDNA sampleRuntime hexDNA = Inr hexReport"
  by (simp add: validateDesignDNA_def block_defs runtime_defs sample_defs hexDNA_def
      hexReport_def Let_def cong: and_then_weak_cong prod.case_cong_weak)

lemma run_interBodyDNA: "validateDesignDNA sampleRuntime interBodyDNA = Inr sampleReport"
  by (simp add: validateDesignDNA_def block_defs runtime_defs sample_defs interBodyDNA_def
      withFamilies_def sampleReport_def Let_def cong: and_then_weak_cong prod.case_cong_weak)

lemma run_interHeadingDNA:
  "validateDesignDNA sampleRuntime interHeadingDNA = Inr interHeadingReport"
  by (simp add: validateDesignDNA_def block_defs runtime_defs sample_defs interHeadingDNA_def
      withFamilies_def interHeadingReport_def Let_def
      cong: and_then_weak_cong prod.case_cong_weak)

subsection \<open>Claims about the validator\<close>



text \<open>
  C3, as stated, fails: with the body stack \<open>["Inter", "sans-serif"]\<close> and nothing else
  wrong, the validator reports no error and the typography score 4, not a score capped
  at 2.
\<close>

theorem inter_body_counterexample:
  "validateDesignDNA sampleRuntime interBodyDNA = Inr sampleReport
   \<and> errors sampleReport = []
   \<and> map_of (scores sampleReport) ''typographySystem'' = Some 4"
  using run_interBodyDNA by (simp add: sampleReport_def)

text \<open>
  C3, amended. Let the validator return on a document. If the first body font lowercases
  to exactly \<open>inter\<close>, then no error about the body font is reported and the typography
  score is not lowered for it: it is 4, or 1 when the heading font is banned or the scale
  ratio is missing. If the first heading font, lowercased, contains \<open>inter\<close>, then the
  heading-font error is reported, the document is not valid and the typography score is 1.
\<close>

theorem inter_escape_hatch:
  assumes ret: "validateDesignDNA rt dna = Inr r"
    and doc: "primitives dna = Some prim" "typography prim = Some typo"
      "families typo = Some fam" "heading fam = Some hs" "body fam = Some bs"
      "scale typo = Some sc"
  shows \<open>(map_option toLowerCase (first_entry bs) = Some ''inter'' \<longrightarrow>
            list_all (\<lambda>e. \<not> starts_with e ''Body font'') (errors r) \<and>
            map_of (scores r) ''typographySystem'' =
              Some (if is_banned (map_option toLowerCase (first_entry hs)) \<or> falsy_num (ratio sc)
                    then 1 else 4))
       \<and> (\<forall>f. first_entry hs = Some f \<and> str_includes (toLowerCase f) ''inter'' \<longrightarrow>
            ''Heading font "'' @ toLowerCase f @ ''" is banned (too common)'' \<in> set (errors r)
            \<and> \<not> valid r
            \<and> map_of (scores r) ''typographySystem'' = Some 1)\<close>
    (is "?body_part \<and> ?heading_part")
proof -
  from errors_chain [OF ret] obtain cs e1 w1 ts e2 w2 n3 n4 n5 where
    c: "validateColor rt dna [] [] = Inr (cs, e1, w1)"
    and t: "validateTypography dna e1 w1 = Inr (ts, e2, w2)"
    and e: "errors r = e2 @ n3 @ n4 @ n5"
    and p: "list_all (\<lambda>e. \<not> starts_with e ''Body font'') (n3 @ n4 @ n5)"
    and s: "map_of (scores r) ''typographySystem'' = Some ts"
    and v: "valid r \<longrightarrow> errors r = []"
    by (elim exE conjE)
  from validateColor_errors [OF c] have p1: "list_all (\<lambda>e. \<not> starts_with e ''Body font'') e1"
    by auto
  have body: "list_all (\<lambda>e. \<not> starts_with e ''Body font'') (errors r) \<and>
      map_of (scores r) ''typographySystem'' =
        Some (if is_banned (map_option toLowerCase (first_entry hs)) \<or> falsy_num (ratio sc)
              then 1 else 4)"
    if b: "map_option toLowerCase (first_entry bs) = Some ''inter''"
  proof -
    from validateTypography_inter_body(2) [OF t doc b] obtain n2 where
      "e2 = e1 @ n2" "list_all (\<lambda>e. \<not> starts_with e ''Body font'') n2"
      by (elim exE conjE)
    with p p1 e have "list_all (\<lambda>e. \<not> starts_with e ''Body font'') (errors r)" by simp
    moreover from validateTypography_inter_body(1) [OF t doc b] s
    have "map_of (scores r) ''typographySystem'' =
        Some (if is_banned (map_option toLowerCase (first_entry hs)) \<or> falsy_num (ratio sc)
              then 1 else 4)"
      by simp
    ultimately show ?thesis ..
  qed
  have head: \<open>''Heading font "'' @ toLowerCase f @ ''" is banned (too common)'' \<in> set (errors r)
            \<and> \<not> valid r \<and> map_of (scores r) ''typographySystem'' = Some 1\<close>
    if f: "first_entry hs = Some f" and i: "str_includes (toLowerCase f) ''inter''" for f
  proof -
    have ban: "is_banned (Some (toLowerCase f))" using i by (rule is_banned_inter)
    from validateTypography_banned_heading(2) [OF t doc f ban] e
    have m: \<open>''Heading font "'' @ toLowerCase f @ ''" is banned (too common)'' \<in> set (errors r)\<close>
      by simp
    then have "errors r \<noteq> []" by auto
    with v have nv: "\<not> valid r" by blast
    from validateTypography_banned_heading(1) [OF t doc f ban] s
    have "map_of (scores r) ''typographySystem'' = Some 1" by simp
    with m nv show ?thesis by (intro conjI)
  qed
  have 1: ?body_part by (rule impI) (rule body)
  have 2: ?heading_part by (intro allI impI, elim conjE) (rule head)
  from 1 2 show ?thesis by (rule conjI)
qed

text \<open>C3, amended, at a document with body font Inter and at one with heading font Inter.\<close>

theorem inter_escape_hatch_witness:
  \<open>validateDesignDNA sampleRuntime interBodyDNA = Inr sampleReport
   \<and> list_all (\<lambda>e. \<not> starts_with e ''Body font'') (errors sampleReport)
   \<and> map_of (scores sampleReport) ''typographySystem'' = Some 4
   \<and> validateDesignDNA sampleRuntime interHeadingDNA = Inr interHeadingReport
   \<and> ''Heading font "inter" is banned (too common)'' \<in> set (errors interHeadingReport)
   \<and> \<not> valid interHeadingReport
   \<and> map_of (scores interHeadingReport) ''typographySystem'' = Some 1\<close>
proof -
  let ?hs = "[''Instrument Serif'', ''Georgia'', ''serif'']"
  let ?fam = "\<lparr> heading = Some ?hs, body = Some [''Inter'', ''sans-serif''] \<rparr>"
  let ?typo = "sampleTypography\<lparr> families := Some ?fam \<rparr>"
  let ?prim = "samplePrimitives\<lparr> typography := Some ?typo \<rparr>"
  have b1: "primitives interBodyDNA = Some ?prim"
    by (simp add: interBodyDNA_def withFamilies_def sampleDNA_def)
  have b2: "typography ?prim = Some ?typo" by simp
  have b3: "families ?typo = Some ?fam" by simp
  have b4: "heading ?fam = Some ?hs" by simp
  have b5: "body ?fam = Some [''Inter'', ''sans-serif'']" by simp
  have b6: "scale ?typo = Some \<lparr> ratio = Some 1.25 \<rparr>" by (simp add: sampleTypography_def)
  have lower: "map_option toLowerCase (first_entry [''Inter'', ''sans-serif'']) = Some ''inter''"
    by (simp add: first_entry_def toLowerCase_def toLowerChar_def)
  have nb: "\<not> is_banned (map_option toLowerCase (first_entry ?hs))"
    by (simp add: first_entry_def toLowerCase_def toLowerChar_def is_banned_def BANNED_FONTS_def)
  from inter_escape_hatch [OF run_interBodyDNA b1 b2 b3 b4 b5 b6] lower nb
  have body: "list_all (\<lambda>e. \<not> starts_with e ''Body font'') (errors sampleReport)
      \<and> map_of (scores sampleReport) ''typographySystem'' = Some 4"
    by (simp add: falsy_num_def)
  let ?hs' = "[''Inter'', ''sans-serif'']"
  let ?bs' = "[''Satoshi'', ''system-ui'', ''sans-serif'']"
  let ?fam' = "\<lparr> heading = Some ?hs', body = Some ?bs' \<rparr>"
  let ?typo' = "sampleTypography\<lparr> families := Some ?fam' \<rparr>"
  let ?prim' = "samplePrimitives\<lparr> typography := Some ?typo' \<rparr>"
  have h1: "primitives interHeadingDNA = Some ?prim'"
    by (simp add: interHeadingDNA_def withFamilies_def sampleDNA_def)
  have h2: "typography ?prim' = Some ?typo'" by simp
  have h3: "families ?typo' = Some ?fam'" by simp
  have h4: "heading ?fam' = Some ?hs'" by simp
  have h5: "body ?fam' = Some ?bs'" by simp
  have h6: "scale ?typo' = Some \<lparr> ratio = Some 1.25 \<rparr>" by (simp add: sampleTypography_def)
  have inc: "first_entry ?hs' = Some ''Inter'' \<and> str_includes (toLowerCase ''Inter'') ''inter''"
    by (simp add: first_entry_def toLowerCase_def toLowerChar_def)
  have low: "toLowerCase ''Inter'' = ''inter''"
    by (simp add: toLowerCase_def toLowerChar_def)
  from inter_escape_hatch [OF run_interHeadingDNA h1 h2 h3 h4 h5 h6]
  have "first_entry ?hs' = Some ''Inter'' \<and> str_includes (toLowerCase ''Inter'') ''inter'' \<longrightarrow>
      ''Heading font \"'' @ toLowerCase ''Inter'' @ ''\" is banned (too common)''
         \<in> set (errors interHeadingReport)
      \<and> \<not> valid interHeadingReport
      \<and> map_of (scores interHeadingReport) ''typographySystem'' = Some 1"
    by (elim conjE allE)
  from this inc have \<open>''Heading font "'' @ toLowerCase ''Inter'' @ ''" is banned (too common)''
         \<in> set (errors interHeadingReport)
      \<and> \<not> valid interHeadingReport
      \<and> map_of (scores interHeadingReport) ''typographySystem'' = Some 1\<close>
    by (rule mp)
  then have head: \<open>''Heading font "inter" is banned (too common)'' \<in> set (errors interHeadingReport)
      \<and> \<not> valid interHeadingReport
      \<and> map_of (scores interHeadingReport) ''typographySystem'' = Some 1\<close>
    unfolding low by simp
  from run_interBodyDNA body run_interHeadingDNA head show ?thesis by (intro conjI) simp_all
qed

text \<open>
  C4. Let the validator return on a document whose colour model is not \<open>oklch\<close>. The
  colour-model error is reported and the document is not valid, but the colour score is 1
  only when text or background is absent or their contrast is below 4.5: the assignment
  \<open>colorScore = 1\<close> of the model check is overwritten by the contrast branch, which
  sets 4 from contrast 7 and 3 from contrast 4.5.
\<close>

theorem color_model_mismatch_score:
  assumes ret: "validateDesignDNA rt dna = Inr r"
    and doc: "primitives dna = Some prim" "color prim = Some col" "palette col = Some pal"
    and hex: "model col \<noteq> Some ''oklch''"
  shows \<open>''Color model must be "oklch"'' \<in> set (errors r) \<and> \<not> valid r
     \<and> map_of (scores r) ''colorSystem'' =
         Some (case (map_of pal ''text'', map_of pal ''background'') of
                 (Some t, Some b) \<Rightarrow>
                   if 7 \<le> contrast rt t b then 4
                   else if 4.5 \<le> contrast rt t b then 3 else 1
               | _ \<Rightarrow> 1)\<close>
proof -
  from errors_chain [OF ret] obtain cs e1 w1 ts e2 w2 n3 n4 n5 where
    c: "validateColor rt dna [] [] = Inr (cs, e1, w1)"
    and t: "validateTypography dna e1 w1 = Inr (ts, e2, w2)"
    and e: "errors r = e2 @ n3 @ n4 @ n5"
    and s: "map_of (scores r) ''colorSystem'' = Some cs"
    and v: "valid r \<longrightarrow> errors r = []"
    by (elim exE conjE)
  from validateTypography_errors [OF t] obtain n2 where n2: "e2 = e1 @ n2" ..
  from validateColor_score(1) [OF c doc hex] e n2
  have m: \<open>''Color model must be "oklch"'' \<in> set (errors r)\<close> by simp
  then have "errors r \<noteq> []" by auto
  with v have nv: "\<not> valid r" by blast
  from validateColor_score(2) [OF c doc hex] s
  have "map_of (scores r) ''colorSystem'' =
         Some (case (map_of pal ''text'', map_of pal ''background'') of
                 (Some t, Some b) \<Rightarrow>
                   if 7 \<le> contrast rt t b then 4
                   else if 4.5 \<le> contrast rt t b then 3 else 1
               | _ \<Rightarrow> 1)"
    by simp
  with m nv show ?thesis by (intro conjI)
qed

text \<open>
  C4 at the document with model \<open>hex\<close> and the text and background colours of the light
  theme: the error is reported and the colour score is 4.
\<close>

theorem color_model_mismatch_score_witness:
  \<open>validateDesignDNA sampleRuntime hexDNA = Inr hexReport
   \<and> ''Color model must be "oklch"'' \<in> set (errors hexReport) \<and> \<not> valid hexReport
   \<and> map_of (scores hexReport) ''colorSystem'' = Some 4\<close>
proof -
  have 1: "primitives hexDNA
             = Some (samplePrimitives\<lparr> color := Some (sampleColor\<lparr> model := Some ''hex'' \<rparr>) \<rparr>)"
    by (simp add: hexDNA_def sampleDNA_def)
  have 2: "color (samplePrimitives\<lparr> color := Some (sampleColor\<lparr> model := Some ''hex'' \<rparr>) \<rparr>)
             = Some (sampleColor\<lparr> model := Some ''hex'' \<rparr>)"
    by simp
  have 3: "palette (sampleColor\<lparr> model := Some ''hex'' \<rparr>)
             = Some [(''primary'', \<lparr>col_l = 0.45, col_c = 0.15, col_h = 220\<rparr>),
                     (''background'', \<lparr>col_l = 0.98, col_c = 0.01, col_h = 220\<rparr>),
                     (''text'', \<lparr>col_l = 0.18, col_c = 0.02, col_h = 220\<rparr>)]"
    by (simp add: sampleColor_def)
  have 4: "model (sampleColor\<lparr> model := Some ''hex'' \<rparr>) \<noteq> Some ''oklch''"
    by simp
  from color_model_mismatch_score [OF run_hexDNA 1 2 3 4]
  have \<open>''Color model must be "oklch"'' \<in> set (errors hexReport) \<and> \<not> valid hexReport
     \<and> map_of (scores hexReport) ''colorSystem'' = Some 4\<close>
    by (simp add: sampleRuntime_def neutralContrast_def power3_eq_cube)
  with run_hexDNA show ?thesis by (rule conjI)
qed





end
